theory Spec2Isabelle
  imports Complex_Main
begin

section \<open>Values, exceptions and outcomes\<close>

text \<open>
  A two-dimensional numeric array is the list of its rows; the entries are real numbers,
  the finite values that an array of integers or of floats holds. The empty list is the
  empty one-dimensional array \<^verbatim>\<open>np.asarray([])\<close>. \<^verbatim>\<open>np.asarray\<close> is the identity on
  this type.
\<close>

type_synonym ndarray = "real list list"

text \<open>
  A number as Python and numpy compute it: a finite value, an infinity, or nan.
\<close>

datatype number = Finite real | PosInf | NegInf | NaN

text \<open>
  The exceptions the two classes can raise themselves, and \<open>ExternalError\<close> for any
  other exception that a collaborator raises (the string is its class name).
\<close>

datatype py_error = TypeError | ValueError | ZeroDivisionError | ExternalError string

section \<open>The radial basis function approximation (rbf.py)\<close>

text \<open>
  The fitted interpolator is a callable from query points to values that may raise.
  \<^verbatim>\<open>RBFInterpolator\<close> of scipy is not part of the repository: its constructor is the
  parameter \<open>solver\<close> of \<open>RBF_fit\<close>, with the keyword arguments in the order of the
  call: points, values, neighbors, smoothing, kernel, epsilon, degree.
\<close>

type_synonym interp = "ndarray \<Rightarrow> py_error + ndarray"

type_synonym solver =
  "ndarray \<Rightarrow> ndarray \<Rightarrow> nat option \<Rightarrow> real \<Rightarrow> string \<Rightarrow> number option \<Rightarrow> int option
     \<Rightarrow> py_error + interp"

record RBF =
  kernel :: string
  smooth :: real
  neighbors :: "nat option"
  degree :: "int option"
  epsilon :: "number option"
  interpolator :: "interp option"
  xi :: "ndarray option"

text \<open>\<^verbatim>\<open>RBF.__init__\<close>: the five arguments are stored, interpolator and xi are None.\<close>

definition RBF_init :: "string \<Rightarrow> real \<Rightarrow> nat option \<Rightarrow> number option \<Rightarrow> int option \<Rightarrow> RBF" where
  "RBF_init k s n e d =
     \<lparr>kernel = k, smooth = s, neighbors = n, degree = d, epsilon = e,
      interpolator = None, xi = None\<rparr>"

text \<open>The constructor called with no argument: every parameter takes its default.\<close>

definition RBF_default :: RBF where
  "RBF_default = RBF_init ''thin_plate_spline'' 0 None None None"

text \<open>\<^verbatim>\<open>xi.shape[-1]\<close>: the length of a row; 0 for the empty one-dimensional array.\<close>

definition shape_last :: "ndarray \<Rightarrow> nat" where
  "shape_last a = (case a of [] \<Rightarrow> 0 | r # _ \<Rightarrow> length r)"

text \<open>
  \<^verbatim>\<open>np.amax(xi, axis=0)\<close> and \<^verbatim>\<open>np.amin(xi, axis=0)\<close>: the maximum (minimum) of every
  column, folded over the rows; a reduction over no row at all raises ValueError.
\<close>

definition amax0 :: "ndarray \<Rightarrow> py_error + real list" where
  "amax0 a = (case a of [] \<Rightarrow> Inl ValueError | r # rs \<Rightarrow> Inr (foldl (map2 max) r rs))"

definition amin0 :: "ndarray \<Rightarrow> py_error + real list" where
  "amin0 a = (case a of [] \<Rightarrow> Inl ValueError | r # rs \<Rightarrow> Inr (foldl (map2 min) r rs))"

text \<open>
  The number that numpy computes for
  \<^verbatim>\<open>np.power(np.prod(edges)/N, 1.0/edges.size)\<close> on line 73 is not the value of that
  expression in the real numbers: \<^verbatim>\<open>np.prod\<close> multiplies in the element type of the
  array, so the product of 64-bit integers wraps around silently and the product of
  floats rounds, overflows to an infinity or underflows to zero, and \<^verbatim>\<open>np.power\<close> of a
  negative base gives nan. This arithmetic belongs to numpy, not to the repository: it is
  the parameter \<open>arith\<close> of \<open>default_epsilon\<close> and of \<open>RBF_fit\<close>, the function that gives,
  for the array of points, the number that line 73 computes when an edge is left. It is a
  parameter of each call, since it depends on the element type of the array, which the
  list of rows does not record. Nothing is assumed about it.
\<close>

type_synonym arith = "ndarray \<Rightarrow> number"

text \<open>
  Lines 69 to 73 of \<^verbatim>\<open>RBF.fit\<close>, the value assigned to epsilon when it is None:
  \<^verbatim>\<open>edges = ximax - ximin; edges = edges[np.nonzero(edges)];
  np.power(np.prod(edges)/N, 1.0/edges.size)\<close>.
  \<^verbatim>\<open>edges.size\<close> is a Python int, so \<^verbatim>\<open>1.0/edges.size\<close> raises ZeroDivisionError when no
  edge is left; numpy's own operations do not raise. Whether an edge is left does not
  depend on numpy's arithmetic: the difference of a maximum and a minimum is zero, in
  64-bit integers as in floats, exactly when the two are equal. So \<open>edges\<close> is taken in
  the real numbers, where it decides the exception, and the number is \<open>arith\<close>'s.
\<close>

definition default_epsilon :: "arith \<Rightarrow> ndarray \<Rightarrow> py_error + number" where
  "default_epsilon arith a =
     (case amax0 a of Inl err \<Rightarrow> Inl err | Inr ximax \<Rightarrow>
      case amin0 a of Inl err \<Rightarrow> Inl err | Inr ximin \<Rightarrow>
        let edges = map2 (-) ximax ximin;
            edges = filter (\<lambda>e. e \<noteq> 0) edges
        in if length edges = 0 then Inl ZeroDivisionError
           else Inr (arith a))"

text \<open>
  \<^verbatim>\<open>RBF.fit(points, values)\<close>. The result is the outcome (the method returns None, or
  raises) together with the object as the call leaves it, also when it raises.
\<close>

definition RBF_fit ::
  "arith \<Rightarrow> solver \<Rightarrow> ndarray \<Rightarrow> ndarray \<Rightarrow> RBF \<Rightarrow> (py_error + unit) \<times> RBF" where
  "RBF_fit arith solver points vals self =
     (let self1 = self\<lparr>xi := Some points\<rparr> in
      case (case epsilon self1 of
              Some e \<Rightarrow> Inr self1
            | None \<Rightarrow>
                (case default_epsilon arith points of
                   Inl err \<Rightarrow> Inl err
                 | Inr eps \<Rightarrow>
                     let self2 = self1\<lparr>epsilon := Some eps\<rparr> in
                     Inr (if kernel self2 \<in> set [''thin_plate_spline'', ''cubic'', ''quintic'']
                          then self2\<lparr>epsilon := Some (Finite 1)\<rparr> else self2))) of
        Inl err \<Rightarrow> (Inl err, self1)
      | Inr self3 \<Rightarrow>
          (case solver points vals (neighbors self3) (smooth self3) (kernel self3)
                  (epsilon self3) (degree self3) of
             Inl err \<Rightarrow> (Inl err, self3)
           | Inr f \<Rightarrow> (Inr (), self3\<lparr>interpolator := Some f\<rparr>)))"

text \<open>
  \<^verbatim>\<open>RBF.predict(new_point)\<close>: calls the interpolator; calling None raises TypeError
  ('NoneType' object is not callable). The object is not modified.
\<close>

definition RBF_predict :: "RBF \<Rightarrow> ndarray \<Rightarrow> py_error + ndarray" where
  "RBF_predict self new_point =
     (case interpolator self of None \<Rightarrow> Inl TypeError | Some f \<Rightarrow> f new_point)"

subsection \<open>The ranges of the dimensions in the words of the specification\<close>

text \<open>
  An array of N points in D dimensions: at least one row, and every row of length D.
\<close>

definition is_matrix :: "ndarray \<Rightarrow> bool" where
  "is_matrix a = (a \<noteq> [] \<and> list_all (\<lambda>r. length r = shape_last a) a)"

text \<open>The range of dimension j: the largest minus the smallest j-th coordinate.\<close>

definition dim_range :: "ndarray \<Rightarrow> nat \<Rightarrow> real" where
  "dim_range a j = Max (set (map (\<lambda>r. r ! j) a)) - Min (set (map (\<lambda>r. r ! j) a))"

text \<open>The ranges that are not zero, in the order of the dimensions.\<close>

definition nonzero_ranges :: "ndarray \<Rightarrow> real list" where
  "nonzero_ranges a = filter (\<lambda>e. e \<noteq> 0) (map (dim_range a) [0..<shape_last a])"

section \<open>The orchestrator (reducedordermodel.py)\<close>

text \<open>
  The database, the reduction and the approximation are objects supplied by the caller;
  their classes are not part of the two source files. A method of such an object is any
  function of the heap (the state of all objects) that returns a value or raises, and
  leaves a heap behind. The system state also carries the trace of what the orchestrator
  does to its environment: each call of a collaborator's method with its arguments,
  recorded when the call is made, and each value printed.
\<close>

datatype event =
    Called_reduce ndarray
  | Called_fit ndarray ndarray
  | Called_predict ndarray
  | Called_expand ndarray
  | Called_inverse ndarray
  | Printed ndarray

record 'w sys =
  heap :: 'w
  trace :: "event list"

type_synonym ('w, 'r) meth = "'w \<Rightarrow> (py_error + 'r) \<times> 'w"

record 'w database_obj =
  parameters :: "'w \<Rightarrow> ndarray"
  snapshots :: "'w \<Rightarrow> ndarray"
  scaler_snapshots_inverse :: "ndarray \<Rightarrow> ('w, ndarray) meth"

record 'w reduction_obj =
  reduce :: "ndarray \<Rightarrow> ('w, ndarray) meth"
  expand :: "ndarray \<Rightarrow> ('w, ndarray) meth"

record 'w approximation_obj =
  fit :: "ndarray \<Rightarrow> ndarray \<Rightarrow> ('w, unit) meth"
  predict :: "ndarray \<Rightarrow> ('w, ndarray) meth"

record 'w ReducedOrderModel =
  database :: "'w database_obj"
  reduction :: "'w reduction_obj"
  approximation :: "'w approximation_obj"

text \<open>\<^verbatim>\<open>ReducedOrderModel.__init__\<close> stores the three references.\<close>

definition ROM_init ::
  "'w database_obj \<Rightarrow> 'w reduction_obj \<Rightarrow> 'w approximation_obj \<Rightarrow> 'w ReducedOrderModel" where
  "ROM_init db red app = \<lparr>database = db, reduction = red, approximation = app\<rparr>"

text \<open>A call of a collaborator's method: the event is recorded, the method runs on the heap.\<close>

definition invoke :: "event \<Rightarrow> ('w, 'r) meth \<Rightarrow> 'w sys \<Rightarrow> (py_error + 'r) \<times> 'w sys" where
  "invoke ev m s = (case m (heap s) of (res, h) \<Rightarrow> (res, \<lparr>heap = h, trace = trace s @ [ev]\<rparr>))"

definition py_print :: "ndarray \<Rightarrow> 'w sys \<Rightarrow> 'w sys" where
  "py_print v s = s\<lparr>trace := trace s @ [Printed v]\<rparr>"

text \<open>
  \<^verbatim>\<open>ReducedOrderModel.fit()\<close>. Python evaluates the arguments from left to right:
  \<^verbatim>\<open>database.parameters\<close> and \<^verbatim>\<open>database.snapshots.T\<close> are read before
  \<^verbatim>\<open>reduction.reduce\<close> runs, and \<^verbatim>\<open>approximation.fit\<close> runs last. \<^verbatim>\<open>.T\<close> of a
  two-dimensional array is its transpose. An exception of a collaborator propagates.
  The method returns \<^verbatim>\<open>self\<close>.
\<close>

definition ROM_fit ::
  "'w ReducedOrderModel \<Rightarrow> 'w sys \<Rightarrow> (py_error + 'w ReducedOrderModel) \<times> 'w sys" where
  "ROM_fit self s =
     (let points = parameters (database self) (heap s);
          snapshots_T = transpose (snapshots (database self) (heap s))
      in case invoke (Called_reduce snapshots_T) (reduce (reduction self) snapshots_T) s of
           (Inl err, s1) \<Rightarrow> (Inl err, s1)
         | (Inr reduced, s1) \<Rightarrow>
             (case invoke (Called_fit points reduced)
                     (fit (approximation self) points reduced) s1 of
                (Inl err, s2) \<Rightarrow> (Inl err, s2)
              | (Inr _, s2) \<Rightarrow> (Inr self, s2)))"

text \<open>
  \<^verbatim>\<open>ReducedOrderModel.predict(mu)\<close>: line 19 prints \<^verbatim>\<open>approximation.predict(mu)\<close>, lines
  20 and 21 call it again inside \<^verbatim>\<open>scaler_snapshots.inverse(reduction.expand(...))\<close>.
\<close>

definition ROM_predict ::
  "'w ReducedOrderModel \<Rightarrow> ndarray \<Rightarrow> 'w sys \<Rightarrow> (py_error + ndarray) \<times> 'w sys" where
  "ROM_predict self mu s =
     (case invoke (Called_predict mu) (predict (approximation self) mu) s of
        (Inl err, s1) \<Rightarrow> (Inl err, s1)
      | (Inr shown, s1) \<Rightarrow>
          (case invoke (Called_predict mu) (predict (approximation self) mu)
                  (py_print shown s1) of
             (Inl err, s2) \<Rightarrow> (Inl err, s2)
           | (Inr latent, s2) \<Rightarrow>
               (case invoke (Called_expand latent) (expand (reduction self) latent) s2 of
                  (Inl err, s3) \<Rightarrow> (Inl err, s3)
                | (Inr expanded, s3) \<Rightarrow>
                    invoke (Called_inverse expanded)
                      (scaler_snapshots_inverse (database self) expanded) s3)))"

text \<open>The arguments of the calls of \<^verbatim>\<open>approximation.predict\<close> in a trace, and what was printed.\<close>

fun predict_calls :: "event list \<Rightarrow> ndarray list" where
  "predict_calls [] = []"
| "predict_calls (Called_predict m # es) = m # predict_calls es"
| "predict_calls (_ # es) = predict_calls es"

fun printed :: "event list \<Rightarrow> ndarray list" where
  "printed [] = []"
| "printed (Printed v # es) = v # printed es"
| "printed (_ # es) = printed es"

text \<open>An \<open>RBF\<close> object as the approximation of an orchestrator; the heap is that object.\<close>

definition RBF_approximation :: "arith \<Rightarrow> solver \<Rightarrow> RBF approximation_obj" where
  "RBF_approximation arith solver =
     \<lparr>fit = (\<lambda>points vals self. RBF_fit arith solver points vals self),
      predict = (\<lambda>new_point self. (RBF_predict self new_point, self))\<rparr>"

section \<open>Concrete collaborators\<close>

text \<open>
  A heap with the state of a reduction that keeps the data it was given (as a proper
  orthogonal decomposition keeps its modes) and of an approximation that keeps its
  training pairs.
\<close>

record store =
  stored_modes :: "ndarray option"
  table :: "(ndarray \<times> ndarray) option"

definition scale_by :: "real \<Rightarrow> ndarray \<Rightarrow> ndarray" where
  "scale_by c a = map (map (\<lambda>x. c * x)) a"



text \<open>
  Two parameter vectors of dimension one and their two snapshots of dimension three; the
  scaler inverse multiplies by ten.
\<close>

definition ex_database :: "store database_obj" where
  "ex_database =
     \<lparr>parameters = (\<lambda>h. [[0], [1]]),
      snapshots = (\<lambda>h. [[1, 2, 3], [4, 5, 6]]),
      scaler_snapshots_inverse = (\<lambda>x h. (Inr (scale_by 10 x), h))\<rparr>"

text \<open>
  A side-effect free reduction: the latent coordinates of a snapshot (a column of the
  argument) are half its entries, one row for each snapshot; \<open>expand\<close> undoes it.
\<close>

definition halving_reduction :: "store reduction_obj" where
  "halving_reduction =
     \<lparr>reduce = (\<lambda>x h. (Inr (scale_by (1/2) (transpose x)), h)),
      expand = (\<lambda>y h. (Inr (scale_by 2 (transpose y)), h))\<rparr>"

text \<open>A reduction whose \<open>reduce\<close> keeps the data it was given.\<close>

definition keeping_reduction :: "store reduction_obj" where
  "keeping_reduction =
     \<lparr>reduce = (\<lambda>x h. (Inr (transpose x), h\<lparr>stored_modes := Some x\<rparr>)),
      expand = (\<lambda>y h. (Inr (transpose y), h))\<rparr>"

text \<open>
  An approximation that keeps its training pairs and answers every query point by the
  value paired with it; it raises TypeError before \<open>fit\<close>, ValueError at an unknown point.
\<close>

definition table_approximation :: "store approximation_obj" where
  "table_approximation =
     \<lparr>fit = (\<lambda>points vals h. (Inr (), h\<lparr>table := Some (points, vals)\<rparr>)),
      predict = (\<lambda>mu h. case table h of
                   None \<Rightarrow> (Inl TypeError, h)
                 | Some (points, vals) \<Rightarrow>
                     (case those (map (map_of (zip points vals)) mu) of
                        None \<Rightarrow> (Inl ValueError, h)
                      | Some rows \<Rightarrow> (Inr rows, h)))\<rparr>"

definition ex_rom :: "store ReducedOrderModel" where
  "ex_rom = ROM_init ex_database halving_reduction table_approximation"

definition keeping_rom :: "store ReducedOrderModel" where
  "keeping_rom = ROM_init ex_database keeping_reduction table_approximation"

definition empty_sys :: "store sys" where
  "empty_sys = \<lparr>heap = \<lparr>stored_modes = None, table = None\<rparr>, trace = []\<rparr>"

text \<open>
  The state after \<open>ex_rom\<close> has been fitted (with the trace emptied), and after it has
  then predicted at the second training parameter.
\<close>

definition fitted_sys :: "store sys" where
  "fitted_sys =
     \<lparr>heap = \<lparr>stored_modes = None,
              table = Some ([[0], [1]], [[1/2, 1, 3/2], [2, 5/2, 3]])\<rparr>,
      trace = []\<rparr>"

definition predicted_sys :: "store sys" where
  "predicted_sys =
     \<lparr>heap = heap fitted_sys,
      trace = [Called_predict [[1]], Printed [[2, 5/2, 3]],
               Called_predict [[1]], Called_expand [[2, 5/2, 3]],
               Called_inverse [[4], [5], [6]]]\<rparr>"


text \<open>A solver that accepts every input; its interpolator returns the fitted values.\<close>

definition const_solver :: solver where
  "const_solver points vals n s k e d = Inr (\<lambda>x. Inr vals)"

definition unit_square :: ndarray where
  "unit_square = [[0, 0], [1, 0], [0, 1], [1, 1]]"

text \<open>Two identical points: every dimension has range zero.\<close>

definition twin_points :: ndarray where
  "twin_points = [[1, 2], [1, 2]]"

text \<open>
  An arithmetic for the examples, which computes in the real numbers: the product of the
  nonzero ranges, divided by the number of dimensions, to the power one over the number
  of nonzero ranges.
\<close>

definition exact_arith :: arith where
  "exact_arith a =
     Finite ((prod_list (nonzero_ranges a) / real (shape_last a)) powr
               (1 / real (length (nonzero_ranges a))))"

section \<open>Auxiliary facts\<close>

subsection \<open>Column maxima and minima\<close>

text \<open>
  Folding \<open>map2 max\<close> over the rows of a rectangular array gives, in every column,
  the maximum of that column; likewise for the minimum.
\<close>

lemma foldl_map2_length:
  "\<forall>x\<in>set rs. length x = length r \<Longrightarrow> length (foldl (map2 f) r rs) = length r"
  by (induction rs arbitrary: r) auto

lemma foldl_map2_max_nth:
  "\<forall>x\<in>set rs. length x = length r \<Longrightarrow> j < length r \<Longrightarrow>
     foldl (map2 max) r rs ! j = Max (set (map (\<lambda>x. x ! j) (r # rs)))"
proof (induction rs arbitrary: r)
  case Nil
  then show ?case by simp
next
  case (Cons x rs)
  have len: "length (map2 max r x) = length r" using Cons.prems by simp
  have "foldl (map2 max) (map2 max r x) rs ! j
          = Max (set (map (\<lambda>x. x ! j) (map2 max r x # rs)))"
    using Cons.prems len by (intro Cons.IH) auto
  moreover have "map2 max r x ! j = max (r ! j) (x ! j)"
    using Cons.prems by simp
  ultimately show ?case
    by (cases "rs = []") (simp_all add: max.assoc)
qed

lemma foldl_map2_min_nth:
  "\<forall>x\<in>set rs. length x = length r \<Longrightarrow> j < length r \<Longrightarrow>
     foldl (map2 min) r rs ! j = Min (set (map (\<lambda>x. x ! j) (r # rs)))"
proof (induction rs arbitrary: r)
  case Nil
  then show ?case by simp
next
  case (Cons x rs)
  have len: "length (map2 min r x) = length r" using Cons.prems by simp
  have "foldl (map2 min) (map2 min r x) rs ! j
          = Min (set (map (\<lambda>x. x ! j) (map2 min r x # rs)))"
    using Cons.prems len by (intro Cons.IH) auto
  moreover have "map2 min r x ! j = min (r ! j) (x ! j)"
    using Cons.prems by simp
  ultimately show ?case
    by (cases "rs = []") (simp_all add: min.assoc)
qed

lemma edges_ranges:
  assumes "is_matrix (r # rs)"
  shows "map2 (-) (foldl (map2 max) r rs) (foldl (map2 min) r rs)
           = map (dim_range (r # rs)) [0..<length r]"
proof (rule nth_equalityI)
  have rows: "\<forall>x\<in>set rs. length x = length r"
    using assms by (simp add: is_matrix_def shape_last_def list_all_iff)
  show "length (map2 (-) (foldl (map2 max) r rs) (foldl (map2 min) r rs))
          = length (map (dim_range (r # rs)) [0..<length r])"
    using rows by (simp add: foldl_map2_length)
  fix j assume "j < length (map2 (-) (foldl (map2 max) r rs) (foldl (map2 min) r rs))"
  then have j: "j < length r" using rows by (simp add: foldl_map2_length)
  then show "map2 (-) (foldl (map2 max) r rs) (foldl (map2 min) r rs) ! j
          = map (dim_range (r # rs)) [0..<length r] ! j"
    using rows foldl_map2_max_nth[OF rows j] foldl_map2_min_nth[OF rows j]
    by (simp add: foldl_map2_length dim_range_def)
qed

subsection \<open>The default epsilon\<close>

lemma default_epsilon_value:
  assumes "is_matrix a" and "nonzero_ranges a \<noteq> []"
  shows "default_epsilon arith a = Inr (arith a)"
proof -
  obtain r rs where a: "a = r # rs" using assms(1) by (cases a) (auto simp: is_matrix_def)
  have e: "map2 (-) (foldl (map2 max) r rs) (foldl (map2 min) r rs)
           = map (dim_range a) [0..<shape_last a]"
    using edges_ranges[of r rs] assms(1) a by (simp add: shape_last_def)
  show ?thesis
    using assms(2) unfolding default_epsilon_def nonzero_ranges_def
    by (simp add: a amax0_def amin0_def Let_def e[unfolded a])
qed

lemma default_epsilon_degenerate:
  assumes "is_matrix a" and "nonzero_ranges a = []"
  shows "default_epsilon arith a = Inl ZeroDivisionError"
proof -
  obtain r rs where a: "a = r # rs" using assms(1) by (cases a) (auto simp: is_matrix_def)
  have e: "map2 (-) (foldl (map2 max) r rs) (foldl (map2 min) r rs)
           = map (dim_range a) [0..<shape_last a]"
    using edges_ranges[of r rs] assms(1) a by (simp add: shape_last_def)
  show ?thesis
    using assms(2) unfolding default_epsilon_def nonzero_ranges_def
    by (simp add: a amax0_def amin0_def Let_def e[unfolded a])
qed

lemma nonzero_ranges_empty_iff:
  "nonzero_ranges a = [] \<longleftrightarrow> (\<forall>j<shape_last a. dim_range a j = 0)"
  by (auto simp: nonzero_ranges_def filter_empty_conv)

lemma RBF_fit_set_epsilon:
  "epsilon self = Some e \<Longrightarrow>
     RBF_fit arith solver points vals self =
       (case solver points vals (neighbors self) (smooth self) (kernel self) (Some e) (degree self) of
          Inl err \<Rightarrow> (Inl err, self\<lparr>xi := Some points\<rparr>)
        | Inr f \<Rightarrow> (Inr (), self\<lparr>xi := Some points, interpolator := Some f\<rparr>))"
  by (simp add: RBF_fit_def Let_def split: sum.splits)

lemma RBF_fit_unset_epsilon:
  "epsilon self = None \<Longrightarrow> default_epsilon arith points = Inr eps \<Longrightarrow>
     epsilon (snd (RBF_fit arith solver points vals self)) =
       Some (if kernel self \<in> {''thin_plate_spline'', ''cubic'', ''quintic''}
             then Finite 1 else eps)"
  by (simp add: RBF_fit_def Let_def split: sum.splits)

lemma nonzero_ranges_unit_square: "nonzero_ranges unit_square = [1, 1]"
  by code_simp

lemma is_matrix_unit_square: "is_matrix unit_square"
  by (simp add: is_matrix_def unit_square_def shape_last_def)

lemma exact_arith_unit_square: "exact_arith unit_square = Finite ((1 / 2) powr (1 / 2))"
  by (simp add: exact_arith_def nonzero_ranges_unit_square)
     (simp add: unit_square_def shape_last_def)

lemma default_epsilon_unit_square:
  "default_epsilon exact_arith unit_square = Inr (Finite ((1 / 2) powr (1 / 2)))"
  using default_epsilon_value[OF is_matrix_unit_square, of exact_arith]
  by (simp add: nonzero_ranges_unit_square exact_arith_unit_square)

subsection \<open>Calls of collaborators\<close>

lemma invoke_elims:
  "invoke ev m s = (res, s') \<Longrightarrow> m (heap s) = (res, heap s') \<and> trace s' = trace s @ [ev]"
  by (auto simp: invoke_def split: prod.splits)

section \<open>The claims\<close>

text \<open>
  Claim C1. When \<open>ReducedOrderModel.predict(mu)\<close> returns, the value it returns is
  what \<open>database.scaler_snapshots.inverse\<close> returned for what \<open>reduction.expand\<close>
  returned for what \<open>approximation.predict(mu)\<close> returned: each call runs on the heap
  the previous one left, and the calls are made in the order predict (whose result is
  printed), predict, expand, inverse.
\<close>

theorem ROM_predict_composition:
  assumes "ROM_predict rom mu s = (Inr y, s')"
  shows "\<exists>shown h1 latent h2 expanded h3.
           predict (approximation rom) mu (heap s) = (Inr shown, h1) \<and>
           predict (approximation rom) mu h1 = (Inr latent, h2) \<and>
           expand (reduction rom) latent h2 = (Inr expanded, h3) \<and>
           scaler_snapshots_inverse (database rom) expanded h3 = (Inr y, heap s') \<and>
           trace s' = trace s @ [Called_predict mu, Printed shown, Called_predict mu,
                                 Called_expand latent, Called_inverse expanded]"
  using assms unfolding ROM_predict_def
  by (auto simp: py_print_def split: prod.splits sum.splits dest!: invoke_elims)

text \<open>
  The fitted example model at its second training parameter.
\<close>

theorem ROM_predict_composition_witness:
  "ROM_predict ex_rom [[1]] fitted_sys = (Inr [[40], [50], [60]], predicted_sys)
   \<and> (\<exists>shown h1 latent h2 expanded h3.
           predict (approximation ex_rom) [[1]] (heap fitted_sys) = (Inr shown, h1) \<and>
           predict (approximation ex_rom) [[1]] h1 = (Inr latent, h2) \<and>
           expand (reduction ex_rom) latent h2 = (Inr expanded, h3) \<and>
           scaler_snapshots_inverse (database ex_rom) expanded h3
             = (Inr [[40], [50], [60]], heap predicted_sys) \<and>
           trace predicted_sys = trace fitted_sys @
              [Called_predict [[1]], Printed shown, Called_predict [[1]],
               Called_expand latent, Called_inverse expanded])"
proof -
  have run: "ROM_predict ex_rom [[1]] fitted_sys = (Inr [[40], [50], [60]], predicted_sys)"
    by code_simp
  from ROM_predict_composition[OF run] run show ?thesis by (rule conjI[rotated])
qed

text \<open>
  Claim C2. \<open>ReducedOrderModel.fit()\<close> first calls \<open>reduction.reduce\<close> on the
  transpose of \<open>database.snapshots\<close>; when it returns, the result of that call has been
  passed as the values of \<open>approximation.fit\<close>, with \<open>database.parameters\<close> as the
  points, these are the only two calls, and the value returned is the orchestrator itself.
\<close>

theorem ROM_fit_delegation:
  "(\<exists>rest. trace (snd (ROM_fit rom s))
       = trace s @ Called_reduce (transpose (snapshots (database rom) (heap s))) # rest)
   \<and> (\<forall>r s'. ROM_fit rom s = (Inr r, s') \<longrightarrow>
         r = rom \<and>
         (\<exists>reduced h1.
            reduce (reduction rom) (transpose (snapshots (database rom) (heap s))) (heap s)
              = (Inr reduced, h1) \<and>
            fit (approximation rom) (parameters (database rom) (heap s)) reduced h1
              = (Inr (), heap s') \<and>
            trace s' = trace s @
              [Called_reduce (transpose (snapshots (database rom) (heap s))),
               Called_fit (parameters (database rom) (heap s)) reduced]))"
  unfolding ROM_fit_def
  by (auto simp: Let_def invoke_def split: prod.splits sum.splits)

text \<open>
  The example model, fitted from the empty state.
\<close>

theorem ROM_fit_delegation_witness:
  "ROM_fit ex_rom empty_sys
     = (Inr ex_rom, fitted_sys\<lparr>trace := [Called_reduce [[1, 4], [2, 5], [3, 6]],
           Called_fit [[0], [1]] [[1/2, 1, 3/2], [2, 5/2, 3]]]\<rparr>)"
proof -
  obtain r s' where run: "ROM_fit ex_rom empty_sys = (Inr r, s')"
    by (simp add: ROM_fit_def ex_rom_def ROM_init_def table_approximation_def
        halving_reduction_def invoke_def Let_def)
  from ROM_fit_delegation[of ex_rom empty_sys] run
  have r: "r = ex_rom"
    and "\<exists>reduced h1.
            reduce (reduction ex_rom)
                (transpose (snapshots (database ex_rom) (heap empty_sys))) (heap empty_sys)
              = (Inr reduced, h1) \<and>
            fit (approximation ex_rom) (parameters (database ex_rom) (heap empty_sys))
                reduced h1
              = (Inr (), heap s') \<and>
            trace s' = trace empty_sys @
              [Called_reduce (transpose (snapshots (database ex_rom) (heap empty_sys))),
               Called_fit (parameters (database ex_rom) (heap empty_sys)) reduced]"
    by blast+
  then have "s' = fitted_sys\<lparr>trace := [Called_reduce [[1, 4], [2, 5], [3, 6]],
           Called_fit [[0], [1]] [[1/2, 1, 3/2], [2, 5/2, 3]]]\<rparr>"
    by (auto simp: ex_rom_def ROM_init_def ex_database_def halving_reduction_def
        table_approximation_def empty_sys_def fitted_sys_def scale_by_def transpose.simps)
  with run r show ?thesis by simp
qed

text \<open>
  Claim C4, as stated, fails: an epsilon given to the constructor is kept by
  \<open>fit\<close> also for these kernels. Here the kernel is cubic and epsilon is 2.
\<close>

theorem RBF_fit_forced_epsilon_counterexample:
  "kernel (RBF_init ''cubic'' 0 None (Some (Finite 2)) None)
     \<in> {''thin_plate_spline'', ''cubic'', ''quintic''}
   \<and> epsilon (snd (RBF_fit exact_arith const_solver unit_square [[0], [1], [1], [2]]
                     (RBF_init ''cubic'' 0 None (Some (Finite 2)) None))) = Some (Finite 2)
   \<and> epsilon (snd (RBF_fit exact_arith const_solver unit_square [[0], [1], [1], [2]]
                     (RBF_init ''cubic'' 0 None (Some (Finite 2)) None))) \<noteq> Some (Finite 1)"
  by (simp add: RBF_fit_def RBF_init_def const_solver_def)

text \<open>
  Claim C4, amended. For a kernel among thin_plate_spline, cubic and quintic, when
  epsilon is unset at the start of \<open>fit\<close> and the computation of the default yields a
  value, the epsilon field equals 1 after the call, whatever the computed default is
  (and whether or not the solver then raises).
\<close>

theorem RBF_fit_forces_unset_epsilon:
  assumes "kernel self \<in> {''thin_plate_spline'', ''cubic'', ''quintic''}"
    and "epsilon self = None" and "default_epsilon arith points = Inr eps"
  shows "epsilon (snd (RBF_fit arith solver points vals self)) = Some (Finite 1)"
  using RBF_fit_unset_epsilon[OF assms(2,3)] assms(1) by simp

text \<open>
  The default kernel on the corners of the unit square.
\<close>

theorem RBF_fit_forces_unset_epsilon_witness:
  "kernel RBF_default \<in> {''thin_plate_spline'', ''cubic'', ''quintic''} \<and>
   epsilon RBF_default = None \<and>
   default_epsilon exact_arith unit_square = Inr (Finite ((1 / 2) powr (1 / 2))) \<and>
   epsilon (snd (RBF_fit exact_arith const_solver unit_square [[0], [1], [1], [2]] RBF_default))
     = Some (Finite 1)"
proof -
  have k: "kernel RBF_default \<in> {''thin_plate_spline'', ''cubic'', ''quintic''}"
    by (simp add: RBF_default_def RBF_init_def)
  have e: "epsilon RBF_default = None" by (simp add: RBF_default_def RBF_init_def)
  have d: "default_epsilon exact_arith unit_square = Inr (Finite ((1 / 2) powr (1 / 2)))"
    by (rule default_epsilon_unit_square)
  from RBF_fit_forces_unset_epsilon[OF k e d] k e d show ?thesis by simp
qed



text \<open>
  Claim C6. A freshly constructed \<open>RBF\<close> has no interpolator, \<open>predict\<close> on it raises
  TypeError for every argument, and so does \<open>ReducedOrderModel.predict\<close> on an
  orchestrator whose approximation is such an object: the first call of
  \<open>approximation.predict\<close> raises, nothing is printed and nothing else is called.
\<close>

theorem RBF_predict_before_fit:
  "interpolator (RBF_init k s n e d) = None \<and>
   RBF_predict (RBF_init k s n e d) new_point = Inl TypeError \<and>
   ROM_predict (ROM_init db red (RBF_approximation arith solver)) mu
       \<lparr>heap = RBF_init k s n e d, trace = t\<rparr>
     = (Inl TypeError, \<lparr>heap = RBF_init k s n e d, trace = t @ [Called_predict mu]\<rparr>)"
  by (simp add: RBF_init_def RBF_predict_def ROM_predict_def ROM_init_def
      RBF_approximation_def invoke_def)

text \<open>
  Claim C7, as stated, fails for the reduction: \<open>fit()\<close> calls \<open>reduction.reduce\<close>,
  and a reduction whose \<open>reduce\<close> keeps what it computed (here, the data it was given)
  is modified by \<open>fit()\<close>.
\<close>

theorem ROM_fit_mutates_reduction_counterexample:
  "fst (ROM_fit keeping_rom empty_sys) = Inr keeping_rom \<and>
   stored_modes (heap empty_sys) = None \<and>
   stored_modes (heap (snd (ROM_fit keeping_rom empty_sys))) = Some [[1, 4], [2, 5], [3, 6]] \<and>
   stored_modes (heap (snd (ROM_fit keeping_rom empty_sys))) \<noteq> stored_modes (heap empty_sys)"
  by (simp add: ROM_fit_def keeping_rom_def ROM_init_def ex_database_def
      keeping_reduction_def table_approximation_def empty_sys_def invoke_def Let_def
      transpose.simps)

text \<open>
  Claim C7, amended. \<open>fit()\<close> changes the heap only through its two delegated calls:
  whatever part of the state (the database, the reduction) both \<open>reduction.reduce\<close> and
  \<open>approximation.fit\<close> leave unchanged is unchanged by \<open>fit()\<close>; and the orchestrator
  returned is the one that was called, with the same three references.
\<close>

theorem ROM_fit_frame:
  assumes "\<And>x h. obs (snd (reduce (reduction rom) x h)) = obs h"
    and "\<And>p v h. obs (snd (fit (approximation rom) p v h)) = obs h"
  shows "obs (heap (snd (ROM_fit rom s))) = obs (heap s) \<and>
         (\<forall>r. fst (ROM_fit rom s) = Inr r \<longrightarrow> r = rom)"
proof -
  let ?X = "transpose (snapshots (database rom) (heap s))"
  let ?P = "parameters (database rom) (heap s)"
  obtain res h1 where r: "reduce (reduction rom) ?X (heap s) = (res, h1)" by force
  have h1: "obs h1 = obs (heap s)" using assms(1)[of ?X "heap s"] r by simp
  show ?thesis
  proof (cases res)
    case (Inl err)
    then show ?thesis using r h1 by (simp add: ROM_fit_def Let_def invoke_def)
  next
    case (Inr reduced)
    obtain res2 h2 where f: "fit (approximation rom) ?P reduced h1 = (res2, h2)" by force
    have "obs h2 = obs h1" using assms(2)[of ?P reduced h1] f by simp
    then show ?thesis using r h1 f Inr
      by (cases res2) (simp_all add: ROM_fit_def Let_def invoke_def)
  qed
qed

text \<open>
  The example model, whose reduction is side-effect free.
\<close>

theorem ROM_fit_frame_witness:
  "stored_modes (heap (snd (ROM_fit ex_rom empty_sys))) = stored_modes (heap empty_sys) \<and>
   fst (ROM_fit ex_rom empty_sys) = Inr ex_rom"
proof -
  have a: "\<And>x h. stored_modes (snd (reduce (reduction ex_rom) x h)) = stored_modes h"
    by (simp add: ex_rom_def ROM_init_def halving_reduction_def)
  have b: "\<And>p v h. stored_modes (snd (fit (approximation ex_rom) p v h)) = stored_modes h"
    by (simp add: ex_rom_def ROM_init_def table_approximation_def)
  obtain r where ok: "fst (ROM_fit ex_rom empty_sys) = Inr r"
    by (simp add: ROM_fit_def ex_rom_def ROM_init_def halving_reduction_def
        table_approximation_def invoke_def Let_def)
  from ROM_fit_frame[of stored_modes ex_rom empty_sys, OF a b] ok show ?thesis by simp
qed

text \<open>
  Claim C8. After a call of \<open>RBF.fit\<close> that returned, epsilon is not None, and a
  further call with any points, values and solver leaves it as it is. When epsilon is
  set at the start of a call, the call is the solver's construction alone, with that
  epsilon: neither the default nor the forcing to 1 is computed.
\<close>

theorem RBF_fit_keeps_epsilon:
  "(fst (RBF_fit arith solver points vals self) = Inr () \<longrightarrow>
      epsilon (snd (RBF_fit arith solver points vals self)) \<noteq> None \<and>
      epsilon (snd (RBF_fit arith2 solver2 points2 vals2
                      (snd (RBF_fit arith solver points vals self))))
        = epsilon (snd (RBF_fit arith solver points vals self)))
   \<and> (\<forall>e. epsilon self = Some e \<longrightarrow>
        RBF_fit arith solver points vals self =
          (case solver points vals (neighbors self) (smooth self) (kernel self) (Some e)
                  (degree self) of
             Inl err \<Rightarrow> (Inl err, self\<lparr>xi := Some points\<rparr>)
           | Inr f \<Rightarrow> (Inr (), self\<lparr>xi := Some points, interpolator := Some f\<rparr>)))"
proof (intro conjI impI allI)
  assume ok: "fst (RBF_fit arith solver points vals self) = Inr ()"
  then show nn: "epsilon (snd (RBF_fit arith solver points vals self)) \<noteq> None"
    by (auto simp: RBF_fit_def Let_def split: sum.splits option.splits if_splits)
  then obtain e where "epsilon (snd (RBF_fit arith solver points vals self)) = Some e" by auto
  then show "epsilon (snd (RBF_fit arith2 solver2 points2 vals2
                      (snd (RBF_fit arith solver points vals self))))
        = epsilon (snd (RBF_fit arith solver points vals self))"
    by (simp add: RBF_fit_set_epsilon split: sum.splits)
next
  fix e assume "epsilon self = Some e"
  then show "RBF_fit arith solver points vals self =
          (case solver points vals (neighbors self) (smooth self) (kernel self) (Some e)
                  (degree self) of
             Inl err \<Rightarrow> (Inl err, self\<lparr>xi := Some points\<rparr>)
           | Inr f \<Rightarrow> (Inr (), self\<lparr>xi := Some points, interpolator := Some f\<rparr>))"
    by (rule RBF_fit_set_epsilon)
qed

text \<open>
  A first fit on the corners of the unit square, then a second fit on two identical
  points, on which the default computation would divide by zero.
\<close>

theorem RBF_fit_keeps_epsilon_witness:
  "fst (RBF_fit exact_arith const_solver unit_square [[0], [1], [1], [2]]
          (RBF_init ''multiquadric'' 0 None None None)) = Inr () \<and>
   epsilon (snd (RBF_fit exact_arith const_solver unit_square [[0], [1], [1], [2]]
          (RBF_init ''multiquadric'' 0 None None None)))
     = Some (Finite ((1 / 2) powr (1 / 2))) \<and>
   default_epsilon exact_arith twin_points = Inl ZeroDivisionError \<and>
   epsilon (snd (RBF_fit exact_arith const_solver twin_points [[0], [0]]
       (snd (RBF_fit exact_arith const_solver unit_square [[0], [1], [1], [2]]
          (RBF_init ''multiquadric'' 0 None None None)))))
     = Some (Finite ((1 / 2) powr (1 / 2))) \<and>
   fst (RBF_fit exact_arith const_solver twin_points [[0], [0]]
       (snd (RBF_fit exact_arith const_solver unit_square [[0], [1], [1], [2]]
          (RBF_init ''multiquadric'' 0 None None None)))) = Inr ()"
proof -
  let ?self = "RBF_init ''multiquadric'' 0 None None None"
  let ?once = "snd (RBF_fit exact_arith const_solver unit_square [[0], [1], [1], [2]] ?self)"
  have ok: "fst (RBF_fit exact_arith const_solver unit_square [[0], [1], [1], [2]] ?self)
              = Inr ()"
    by (simp add: RBF_fit_def RBF_init_def const_solver_def default_epsilon_unit_square)
  have eps: "epsilon ?once = Some (Finite ((1 / 2) powr (1 / 2)))"
    by (simp add: RBF_fit_def RBF_init_def const_solver_def default_epsilon_unit_square)
  have deg: "default_epsilon exact_arith twin_points = Inl ZeroDivisionError"
    by (rule default_epsilon_degenerate)
       (simp_all add: is_matrix_def twin_points_def shape_last_def nonzero_ranges_def
          dim_range_def)
  have keep: "epsilon (snd (RBF_fit exact_arith const_solver twin_points [[0], [0]] ?once))
                = epsilon ?once"
    using RBF_fit_keeps_epsilon[of exact_arith const_solver unit_square "[[0], [1], [1], [2]]"
        ?self exact_arith const_solver twin_points "[[0], [0]]"] ok
    by blast
  have again: "fst (RBF_fit exact_arith const_solver twin_points [[0], [0]] ?once) = Inr ()"
    using RBF_fit_keeps_epsilon[of exact_arith const_solver twin_points "[[0], [0]]" ?once] eps
    by (simp add: const_solver_def)
  from ok eps deg keep again show ?thesis by simp
qed

text \<open>
  Claim C9. When epsilon is unset and every dimension of the points has range zero,
  \<open>RBF.fit\<close> raises ZeroDivisionError; the solver is not called, epsilon and the
  interpolator are as before, and xi holds the new points.
\<close>

theorem RBF_fit_zero_range:
  assumes "epsilon self = None" and "is_matrix points"
    and "\<forall>j<shape_last points. dim_range points j = 0"
  shows "RBF_fit arith solver points vals self
           = (Inl ZeroDivisionError, self\<lparr>xi := Some points\<rparr>)"
proof -
  have "nonzero_ranges points = []" using assms(3) by (simp add: nonzero_ranges_empty_iff)
  then have "default_epsilon arith points = Inl ZeroDivisionError"
    using assms(2) by (rule default_epsilon_degenerate[rotated])
  then show ?thesis using assms(1) by (simp add: RBF_fit_def Let_def)
qed

text \<open>
  Two identical points and the default constructor.
\<close>

theorem RBF_fit_zero_range_witness:
  "epsilon RBF_default = None \<and> is_matrix twin_points \<and>
   dim_range twin_points 0 = 0 \<and> dim_range twin_points 1 = 0 \<and>
   RBF_fit exact_arith const_solver twin_points [[0], [0]] RBF_default
     = (Inl ZeroDivisionError, RBF_default\<lparr>xi := Some twin_points\<rparr>) \<and>
   epsilon (snd (RBF_fit exact_arith const_solver twin_points [[0], [0]] RBF_default)) = None \<and>
   interpolator (snd (RBF_fit exact_arith const_solver twin_points [[0], [0]] RBF_default))
     = None \<and>
   xi (snd (RBF_fit exact_arith const_solver twin_points [[0], [0]] RBF_default))
     = Some twin_points"
proof -
  have e: "epsilon RBF_default = None" by (simp add: RBF_default_def RBF_init_def)
  have i: "interpolator RBF_default = None" by (simp add: RBF_default_def RBF_init_def)
  have m: "is_matrix twin_points" by (simp add: is_matrix_def twin_points_def shape_last_def)
  have d0: "dim_range twin_points 0 = 0" by (simp add: dim_range_def twin_points_def)
  have d1: "dim_range twin_points 1 = 0" by (simp add: dim_range_def twin_points_def)
  have z: "\<forall>j<shape_last twin_points. dim_range twin_points j = 0"
    using d0 d1 by (auto simp: twin_points_def shape_last_def less_Suc_eq numeral_2_eq_2)
  from RBF_fit_zero_range[OF e m z, of exact_arith const_solver "[[0], [0]]"] e i m d0 d1
  show ?thesis by simp
qed

text \<open>
  Claim C10. Whenever the first call of \<open>approximation.predict(mu)\<close> returns,
  \<open>ReducedOrderModel.predict(mu)\<close> calls \<open>approximation.predict\<close> exactly twice, both
  times with \<open>mu\<close>; the first result is printed and used for nothing else, and when the
  method returns, the value returned comes from the second result through
  \<open>reduction.expand\<close> and the scaler inverse.
\<close>

theorem ROM_predict_calls_predict_twice:
  assumes "predict (approximation rom) mu (heap s) = (Inr shown, h1)"
  shows "\<exists>new. trace (snd (ROM_predict rom mu s)) = trace s @ new \<and>
           predict_calls new = [mu, mu] \<and> printed new = [shown] \<and>
           (\<forall>y s'. ROM_predict rom mu s = (Inr y, s') \<longrightarrow>
              (\<exists>latent h2 expanded h3.
                 predict (approximation rom) mu h1 = (Inr latent, h2) \<and>
                 expand (reduction rom) latent h2 = (Inr expanded, h3) \<and>
                 scaler_snapshots_inverse (database rom) expanded h3 = (Inr y, heap s') \<and>
                 new = [Called_predict mu, Printed shown, Called_predict mu,
                        Called_expand latent, Called_inverse expanded]))"
  using assms unfolding ROM_predict_def
  by (auto simp: py_print_def invoke_def split: prod.splits sum.splits)

text \<open>
  The fitted example model.
\<close>

theorem ROM_predict_calls_predict_twice_witness:
  "predict (approximation ex_rom) [[1]] (heap fitted_sys)
     = (Inr [[2, 5/2, 3]], heap fitted_sys) \<and>
   ROM_predict ex_rom [[1]] fitted_sys = (Inr [[40], [50], [60]], predicted_sys) \<and>
   predict_calls (trace predicted_sys) = [[[1]], [[1]]] \<and>
   printed (trace predicted_sys) = [[[2, 5/2, 3]]]"
proof -
  have first: "predict (approximation ex_rom) [[1]] (heap fitted_sys)
     = (Inr [[2, 5/2, 3]], heap fitted_sys)"
    by (simp add: ex_rom_def ROM_init_def table_approximation_def fitted_sys_def)
  have run: "ROM_predict ex_rom [[1]] fitted_sys = (Inr [[40], [50], [60]], predicted_sys)"
    by code_simp
  have t: "trace fitted_sys = []" by (simp add: fitted_sys_def)
  from ROM_predict_calls_predict_twice[OF first] run t first show ?thesis by auto
qed

end
